theory Spec2Isabelle
  imports Complex_Main
begin

section \<open>Python values, exceptions and effects\<close>

text \<open>
  The handler of \<^verbatim>\<open>src/handlers/member_events.py\<close> receives a gateway event as a
  \<^verbatim>\<open>Dict[str, Any]\<close>. The values of such a dictionary are modelled by the JSON-shaped
  type below. A dictionary is an association list read with \<open>map_of\<close>. A string is a list
  of characters with code points below 256.
\<close>

datatype pyval =
    VNone
  | VBool bool
  | VInt int
  | VStr string
  | VList "pyval list"
  | VDict "(string \<times> pyval) list"

text \<open>
  An exception is its class name, the text \<^verbatim>\<open>str(e)\<close> and its \<^verbatim>\<open>retry_after\<close>
  attribute, when it has one (then a number of seconds, as on the rate-limit error of
  the Discord library). Exceptions are instances of \<^verbatim>\<open>Exception\<close>, the class the
  handlers of the source catch; task cancellation and interpreter exit, which are not,
  are outside the model.
\<close>

datatype pyexn = PyExn (exn_class: string) (exn_str: string) (exn_retry_after: "real option")

datatype level = Info | Warning | Error

text \<open>One constructor for each logging call of the source, with the values its f-string formats.\<close>

datatype logmsg =
    InvalidEventData "(string \<times> pyval) list"
  | DuplicateMemberJoin pyval pyval
  | NoWelcomeChannel pyval
  | WelcomeSentFor pyval pyval
  | FailedToProcess pyval string
  | ChannelNotFound pyval
  | WelcomeSentTo pyval pyval pyval
  | RateLimited real
  | PermissionDenied pyval
  | FailedToSend string
  | FailedToFetch pyval string

text \<open>
  The message content is the fixed welcome template around the mention of the user id;
  only the id varies, so the payload is the id.
\<close>

datatype message = WelcomeMessage pyval

text \<open>
  Everything the handler does to the outside, in order: a log record, a call of
  \<^verbatim>\<open>config_service.get_welcome_channel\<close>, a call of \<^verbatim>\<open>fetch_channel\<close>, a call of
  \<^verbatim>\<open>channel.send\<close> (with the identity of the channel), a call of \<^verbatim>\<open>asyncio.sleep\<close>.
\<close>

datatype effect =
    Log level logmsg
  | GetWelcomeChannel pyval
  | FetchChannel int
  | Send int message
  | Sleep real

text \<open>A channel object: its identity and what its \<^verbatim>\<open>send\<close> method does with a content.\<close>

datatype channel = Channel (chan_id: int) (send: "message \<Rightarrow> pyexn + unit")

text \<open>
  The handler object: \<^verbatim>\<open>config_service\<close> stands for the one method the handler calls,
  \<^verbatim>\<open>get_welcome_channel\<close>; \<^verbatim>\<open>_discord_client\<close> is \<open>None\<close> until injected and then stands
  for \<^verbatim>\<open>fetch_channel\<close>, which returns a channel object or Python's \<^verbatim>\<open>None\<close>.
\<close>

record handler =
  config_service :: "pyval \<Rightarrow> pyexn + pyval"
  discord_client :: "(int \<Rightarrow> pyexn + channel option) option"

definition init_handler :: "(pyval \<Rightarrow> pyexn + pyval) \<Rightarrow> handler" where
  "init_handler cs = \<lparr>config_service = cs, discord_client = None\<rparr>"

definition set_discord_client :: "handler \<Rightarrow> (int \<Rightarrow> pyexn + channel option) \<Rightarrow> handler" where
  "set_discord_client self client = self\<lparr>discord_client := Some client\<rparr>"

subsection \<open>Results with a trace of effects\<close>

type_synonym 'a result = "(pyexn + 'a) \<times> effect list"

definition ok :: "'a \<Rightarrow> 'a result" where
  "ok x = (Inr x, [])"

definition raise_exn :: "pyexn \<Rightarrow> 'a result" where
  "raise_exn e = (Inl e, [])"

definition emit :: "effect \<Rightarrow> unit result" where
  "emit ef = (Inr (), [ef])"

definition lift :: "pyexn + 'a \<Rightarrow> 'a result" where
  "lift r = (r, [])"

definition then_do :: "'a result \<Rightarrow> ('a \<Rightarrow> 'b result) \<Rightarrow> 'b result" where
  "then_do m f =
     (case m of
        (Inl e, t) \<Rightarrow> (Inl e, t)
      | (Inr a, t) \<Rightarrow> (case f a of (r, t') \<Rightarrow> (r, t @ t')))"

text \<open>\<^verbatim>\<open>try: m except Exception as e: h(e)\<close>\<close>

definition try_except :: "'a result \<Rightarrow> (pyexn \<Rightarrow> 'a result) \<Rightarrow> 'a result" where
  "try_except m h =
     (case m of
        (Inl e, t) \<Rightarrow> (case h e of (r, t') \<Rightarrow> (r, t @ t'))
      | (Inr a, t) \<Rightarrow> (Inr a, t))"

subsection \<open>The built-ins the handler uses\<close>

definition quoted :: "string \<Rightarrow> string" where
  "quoted s = [CHR 0x27] @ s @ [CHR 0x27]"

fun py_in_str :: "string \<Rightarrow> string \<Rightarrow> bool" where
  "py_in_str needle [] = (needle = [])"
| "py_in_str needle (c # cs) =
     (take (length needle) (c # cs) = needle \<or> py_in_str needle cs)"

text \<open>
  \<^verbatim>\<open>str.lower\<close> on the ASCII letters. The other characters never become a character of
  the ASCII needles the source looks for, so they are left as they are.
\<close>

definition lower_char :: "char \<Rightarrow> char" where
  "lower_char c =
     (if 65 \<le> (of_char c :: nat) \<and> (of_char c :: nat) \<le> 90
      then char_of ((of_char c :: nat) + 32) else c)"

definition py_lower :: "string \<Rightarrow> string" where
  "py_lower s = map lower_char s"

text \<open>\<^verbatim>\<open>field in container\<close> for a string \<open>field\<close>.\<close>

fun py_contains :: "pyval \<Rightarrow> string \<Rightarrow> pyexn + bool" where
  "py_contains (VDict kvs) field = Inr (field \<in> set (map fst kvs))"
| "py_contains (VStr s) field = Inr (py_in_str field s)"
| "py_contains (VList xs) field = Inr (VStr field \<in> set xs)"
| "py_contains VNone field =
     Inl (PyExn ''TypeError'' (''argument of type '' @ quoted ''NoneType'' @ '' is not iterable'') None)"
| "py_contains (VBool b) field =
     Inl (PyExn ''TypeError'' (''argument of type '' @ quoted ''bool'' @ '' is not iterable'') None)"
| "py_contains (VInt n) field =
     Inl (PyExn ''TypeError'' (''argument of type '' @ quoted ''int'' @ '' is not iterable'') None)"

text \<open>\<^verbatim>\<open>container[key]\<close> for a string \<open>key\<close>.\<close>

fun py_getitem :: "pyval \<Rightarrow> string \<Rightarrow> pyexn + pyval" where
  "py_getitem (VDict kvs) key =
     (case map_of kvs key of
        None \<Rightarrow> Inl (PyExn ''KeyError'' (quoted key) None)
      | Some v \<Rightarrow> Inr v)"
| "py_getitem (VStr s) key =
     Inl (PyExn ''TypeError'' (''string indices must be integers, not '' @ quoted ''str'') None)"
| "py_getitem (VList xs) key =
     Inl (PyExn ''TypeError'' ''list indices must be integers or slices, not str'' None)"
| "py_getitem VNone key =
     Inl (PyExn ''TypeError'' (quoted ''NoneType'' @ '' object is not subscriptable'') None)"
| "py_getitem (VBool b) key =
     Inl (PyExn ''TypeError'' (quoted ''bool'' @ '' object is not subscriptable'') None)"
| "py_getitem (VInt n) key =
     Inl (PyExn ''TypeError'' (quoted ''int'' @ '' object is not subscriptable'') None)"

text \<open>\<^verbatim>\<open>d.get(key, default)\<close>\<close>

definition dict_get :: "(string \<times> pyval) list \<Rightarrow> string \<Rightarrow> pyval \<Rightarrow> pyval" where
  "dict_get d key dflt = (case map_of d key of None \<Rightarrow> dflt | Some v \<Rightarrow> v)"

text \<open>
  \<^verbatim>\<open>int(x)\<close>. For a string: surrounding whitespace is dropped, then an optional sign,
  then decimal digits, single underscores allowed between digits. The interpreter's
  configurable bound on the number of digits is not modelled, and the text of the
  \<^verbatim>\<open>ValueError\<close> quotes the literal without the escapes of \<^verbatim>\<open>repr\<close>.
\<close>

definition is_space :: "char \<Rightarrow> bool" where
  "is_space c = ((of_char c :: nat) \<in> {9, 10, 11, 12, 13, 32, 133, 160})"

definition is_digit :: "char \<Rightarrow> bool" where
  "is_digit c = (48 \<le> (of_char c :: nat) \<and> (of_char c :: nat) \<le> 57)"

definition digit_val :: "char \<Rightarrow> int" where
  "digit_val c = int (of_char c) - 48"

fun digits_value :: "string \<Rightarrow> int \<Rightarrow> int option" where
  "digits_value [] acc = Some acc"
| "digits_value [c] acc = (if is_digit c then Some (acc * 10 + digit_val c) else None)"
| "digits_value (c # d # ds) acc =
     (if is_digit c then digits_value (d # ds) (acc * 10 + digit_val c)
      else if c = CHR ''_'' \<and> is_digit d then digits_value ds (acc * 10 + digit_val d)
      else None)"

definition unsigned_value :: "string \<Rightarrow> int option" where
  "unsigned_value s =
     (case s of
        [] \<Rightarrow> None
      | c # cs \<Rightarrow> if is_digit c then digits_value cs (digit_val c) else None)"

definition strip :: "string \<Rightarrow> string" where
  "strip s = rev (dropWhile is_space (rev (dropWhile is_space s)))"

definition int_of_literal :: "string \<Rightarrow> int option" where
  "int_of_literal s =
     (case strip s of
        [] \<Rightarrow> None
      | c # cs \<Rightarrow>
          if c = CHR ''+'' then unsigned_value cs
          else if c = CHR ''-'' then map_option uminus (unsigned_value cs)
          else unsigned_value (c # cs))"

fun py_int :: "pyval \<Rightarrow> pyexn + int" where
  "py_int (VStr s) =
     (case int_of_literal s of
        None \<Rightarrow> Inl (PyExn ''ValueError''
                  (''invalid literal for int() with base 10: '' @ quoted s) None)
      | Some n \<Rightarrow> Inr n)"
| "py_int (VInt n) = Inr n"
| "py_int (VBool b) = Inr (if b then 1 else 0)"
| "py_int VNone =
     Inl (PyExn ''TypeError''
       (''int() argument must be a string, a bytes-like object or a real number, not '' @ quoted ''NoneType'') None)"
| "py_int (VList xs) =
     Inl (PyExn ''TypeError''
       (''int() argument must be a string, a bytes-like object or a real number, not '' @ quoted ''list'') None)"
| "py_int (VDict kvs) =
     Inl (PyExn ''TypeError''
       (''int() argument must be a string, a bytes-like object or a real number, not '' @ quoted ''dict'') None)"

section \<open>The member event handler\<close>

definition required_fields :: "string list" where
  "required_fields = [''guild_id'', ''user'']"

definition user_required_fields :: "string list" where
  "user_required_fields = [''id'', ''username'']"

text \<open>
  The two loops of \<^verbatim>\<open>_validate_event_data\<close>: \<^verbatim>\<open>False\<close> at the first field that is not
  in the container, \<^verbatim>\<open>True\<close> past the last one; the membership test itself raises on a
  container that is not iterable.
\<close>

fun fields_present :: "string list \<Rightarrow> pyval \<Rightarrow> pyexn + bool" where
  "fields_present [] container = Inr True"
| "fields_present (field # rest) container =
     (case py_contains container field of
        Inl e \<Rightarrow> Inl e
      | Inr present \<Rightarrow> if \<not> present then Inr False else fields_present rest container)"

definition validate_event_data :: "(string \<times> pyval) list \<Rightarrow> pyexn + bool" where
  "validate_event_data event_data =
     (case fields_present required_fields (VDict event_data) of
        Inl e \<Rightarrow> Inl e
      | Inr present \<Rightarrow>
          if \<not> present then Inr False
          else fields_present user_required_fields (dict_get event_data ''user'' (VDict [])))"

text \<open>
  \<^verbatim>\<open>_is_duplicate_event\<close>: its body is a comment announcing the idempotency component
  and \<^verbatim>\<open>return False\<close>.
\<close>

definition is_duplicate_event :: "(string \<times> pyval) list \<Rightarrow> bool" where
  "is_duplicate_event event_data = False"

definition get_channel :: "handler \<Rightarrow> pyval \<Rightarrow> channel option result" where
  "get_channel self channel_id =
     (case discord_client self of
        None \<Rightarrow> raise_exn (PyExn ''RuntimeError'' ''Discord client not initialized'' None)
      | Some fetch_channel \<Rightarrow>
          try_except
            (then_do (lift (py_int channel_id)) (\<lambda>n.
             then_do (emit (FetchChannel n)) (\<lambda>_.
             lift (fetch_channel n))))
            (\<lambda>e.
             then_do (emit (Log Error (FailedToFetch channel_id (exn_str e)))) (\<lambda>_.
             ok None)))"

definition is_rate_limit :: "pyexn \<Rightarrow> bool" where
  "is_rate_limit e =
     (py_in_str ''rate limit'' (py_lower (exn_str e)) \<or> py_in_str ''429'' (exn_str e))"

definition is_permission :: "pyexn \<Rightarrow> bool" where
  "is_permission e =
     (py_in_str ''permission'' (py_lower (exn_str e)) \<or> py_in_str ''403'' (exn_str e))"

text \<open>\<^verbatim>\<open>getattr(e, 'retry_after', 5.0)\<close>\<close>

definition retry_after_of :: "pyexn \<Rightarrow> real" where
  "retry_after_of e = (case exn_retry_after e of None \<Rightarrow> 5 | Some d \<Rightarrow> d)"

definition send_welcome_message :: "handler \<Rightarrow> pyval \<Rightarrow> pyval \<Rightarrow> unit result" where
  "send_welcome_message self channel_id user =
     try_except
       (then_do (get_channel self channel_id) (\<lambda>channel.
        case channel of
          None \<Rightarrow> emit (Log Error (ChannelNotFound channel_id))
        | Some ch \<Rightarrow>
            then_do (lift (py_getitem user ''id'')) (\<lambda>user_id.
            then_do (lift (py_getitem user ''username'')) (\<lambda>username.
            then_do (emit (Send (chan_id ch) (WelcomeMessage user_id))) (\<lambda>_.
            then_do (lift (send ch (WelcomeMessage user_id))) (\<lambda>_.
            emit (Log Info (WelcomeSentTo channel_id username user_id))))))))
       (\<lambda>e.
        if is_rate_limit e then
          then_do (emit (Log Warning (RateLimited (retry_after_of e)))) (\<lambda>_.
          emit (Sleep (retry_after_of e)))
        else if is_permission e then emit (Log Error (PermissionDenied channel_id))
        else
          then_do (emit (Log Error (FailedToSend (exn_str e)))) (\<lambda>_.
          raise_exn e))"

text \<open>
  \<^verbatim>\<open>handle_guild_member_add\<close>. Its value is Python's \<^verbatim>\<open>None\<close> on every path that
  returns. The handler object is an argument only: no method but \<^verbatim>\<open>set_discord_client\<close>
  assigns to it.
\<close>

definition handle_guild_member_add :: "handler \<Rightarrow> (string \<times> pyval) list \<Rightarrow> pyval result" where
  "handle_guild_member_add self event_data =
     try_except
       (then_do (lift (validate_event_data event_data)) (\<lambda>valid.
        if \<not> valid then
          then_do (emit (Log Error (InvalidEventData event_data))) (\<lambda>_. ok VNone)
        else
          then_do (lift (py_getitem (VDict event_data) ''guild_id'')) (\<lambda>guild_id.
          then_do (lift (py_getitem (VDict event_data) ''user'')) (\<lambda>user.
          if is_duplicate_event event_data then
            then_do (lift (py_getitem user ''id'')) (\<lambda>user_id.
            then_do (emit (Log Info (DuplicateMemberJoin user_id guild_id))) (\<lambda>_. ok VNone))
          else
            then_do (emit (GetWelcomeChannel guild_id)) (\<lambda>_.
            then_do (lift (config_service self guild_id)) (\<lambda>welcome_channel_id.
            if welcome_channel_id = VNone then
              then_do (emit (Log Warning (NoWelcomeChannel guild_id))) (\<lambda>_. ok VNone)
            else
              then_do (send_welcome_message self welcome_channel_id user) (\<lambda>_.
              then_do (lift (py_getitem user ''id'')) (\<lambda>user_id.
              then_do (emit (Log Info (WelcomeSentFor user_id guild_id))) (\<lambda>_.
              ok VNone)))))))))
       (\<lambda>e.
        then_do (emit (Log Error
          (FailedToProcess (dict_get event_data ''guild_id'' (VStr ''unknown'')) (exn_str e)))) (\<lambda>_.
        ok VNone))"

text \<open>
  The transport delivers events one after the other to the same handler object; each
  delivery is one call of the entry point.
\<close>

definition process_events :: "handler \<Rightarrow> (string \<times> pyval) list list \<Rightarrow> pyval result list" where
  "process_events self events = map (handle_guild_member_add self) events"

subsection \<open>Reading a trace\<close>

fun send_attempts :: "effect list \<Rightarrow> nat" where
  "send_attempts [] = 0"
| "send_attempts (Send c m # t) = Suc (send_attempts t)"
| "send_attempts (ef # t) = send_attempts t"

fun waits :: "effect list \<Rightarrow> real list" where
  "waits [] = []"
| "waits (Sleep d # t) = d # waits t"
| "waits (ef # t) = waits t"


fun config_lookups :: "effect list \<Rightarrow> nat" where
  "config_lookups [] = 0"
| "config_lookups (GetWelcomeChannel g # t) = Suc (config_lookups t)"
| "config_lookups (ef # t) = config_lookups t"

fun channel_fetches :: "effect list \<Rightarrow> nat" where
  "channel_fetches [] = 0"
| "channel_fetches (FetchChannel n # t) = Suc (channel_fetches t)"
| "channel_fetches (ef # t) = channel_fetches t"

fun reported_duplicate :: "effect list \<Rightarrow> bool" where
  "reported_duplicate [] = False"
| "reported_duplicate (Log l (DuplicateMemberJoin u g) # t) = True"
| "reported_duplicate (ef # t) = reported_duplicate t"

subsection \<open>Events and collaborators of the test suite\<close>

text \<open>The \<^verbatim>\<open>guild_member_add_event\<close> fixture of the tests, without its timestamp.\<close>

definition member_join_event :: "(string \<times> pyval) list" where
  "member_join_event =
     [(''guild_id'', VStr ''123456789''),
      (''user'', VDict [(''id'', VStr ''987654321''), (''username'', VStr ''new_user''),
                        (''discriminator'', VStr ''1234'')])]"

text \<open>The \<^verbatim>\<open>malformed_event\<close> of the tests: no \<^verbatim>\<open>user\<close>.\<close>

definition malformed_event :: "(string \<times> pyval) list" where
  "malformed_event = [(''guild_id'', VStr ''123456789'')]"

text \<open>An event whose subject has an empty identifier and an empty display name.\<close>

definition empty_names_event :: "(string \<times> pyval) list" where
  "empty_names_event =
     [(''guild_id'', VStr ''G1''), (''user'', VDict [(''id'', VStr []), (''username'', VStr [])])]"

definition configured :: "pyval \<Rightarrow> pyexn + pyval" where
  "configured guild_id = Inr (VStr ''555666777'')"

definition unconfigured :: "pyval \<Rightarrow> pyexn + pyval" where
  "unconfigured guild_id = Inr VNone"

text \<open>The \<^verbatim>\<open>user\<close> of that event.\<close>

definition member_join_user :: pyval where
  "member_join_user = dict_get member_join_event ''user'' VNone"

text \<open>A client whose every channel accepts the message.\<close>

definition client_ready :: "int \<Rightarrow> pyexn + channel option" where
  "client_ready n = Inr (Some (Channel n (\<lambda>m. Inr ())))"

text \<open>A client whose channels answer every send with HTTP 429 and a retry-after of 2 seconds.\<close>

definition too_many_requests :: pyexn where
  "too_many_requests = PyExn ''HTTPException'' ''429 Too Many Requests'' (Some 2)"

definition client_rate_limited :: "int \<Rightarrow> pyexn + channel option" where
  "client_rate_limited n = Inr (Some (Channel n (\<lambda>m. Inl too_many_requests)))"

text \<open>A client whose channels answer every send with HTTP 503.\<close>

definition service_unavailable :: pyexn where
  "service_unavailable = PyExn ''HTTPException'' ''503 Service Unavailable'' None"

definition client_unavailable :: "int \<Rightarrow> pyexn + channel option" where
  "client_unavailable n = Inr (Some (Channel n (\<lambda>m. Inl service_unavailable)))"

text \<open>A client that cannot fetch any channel.\<close>

definition client_not_found :: "int \<Rightarrow> pyexn + channel option" where
  "client_not_found n = Inl (PyExn ''NotFound'' ''404 Not Found'' None)"

text \<open>Handler objects built the way the dispatcher builds them.\<close>

definition handler_ready :: handler where
  "handler_ready = set_discord_client (init_handler configured) client_ready"

definition handler_rate_limited :: handler where
  "handler_rate_limited = set_discord_client (init_handler configured) client_rate_limited"

definition handler_unavailable :: handler where
  "handler_unavailable = set_discord_client (init_handler configured) client_unavailable"

definition handler_not_found :: handler where
  "handler_not_found = set_discord_client (init_handler configured) client_not_found"

definition handler_unconfigured :: handler where
  "handler_unconfigured = set_discord_client (init_handler unconfigured) client_ready"

definition handler_no_client :: handler where
  "handler_no_client = init_handler configured"

subsection \<open>What a run of deliveries did\<close>

definition delivery_sends :: "handler \<Rightarrow> (string \<times> pyval) list list \<Rightarrow> nat list" where
  "delivery_sends self events = map (\<lambda>r. send_attempts (snd r)) (process_events self events)"


definition delivery_lookups :: "handler \<Rightarrow> (string \<times> pyval) list list \<Rightarrow> nat list" where
  "delivery_lookups self events = map (\<lambda>r. config_lookups (snd r)) (process_events self events)"

definition delivery_duplicates :: "handler \<Rightarrow> (string \<times> pyval) list list \<Rightarrow> bool list" where
  "delivery_duplicates self events =
     map (\<lambda>r. reported_duplicate (snd r)) (process_events self events)"


text \<open>An exception that the dispatcher classifies neither as a rate limit nor as a permission error.\<close>

definition unclassified :: "pyexn \<Rightarrow> bool" where
  "unclassified e = (\<not> is_rate_limit e \<and> \<not> is_permission e)"


section \<open>Properties\<close>

subsection \<open>Running a result\<close>

lemma then_do_simps:
  "then_do (Inl e, t) f = (Inl e, t)"
  "then_do (Inr a, t) f = (fst (f a), t @ snd (f a))"
  by (simp_all add: then_do_def split: prod.splits)

lemma try_except_simps:
  "try_except (Inl e, t) h = (fst (h e), t @ snd (h e))"
  "try_except (Inr a, t) h = (Inr a, t)"
  by (simp_all add: try_except_def split: prod.splits)

lemmas run_defs = ok_def raise_exn_def emit_def lift_def

lemma fst_then_do:
  "fst (then_do m f) = (case fst m of Inl e \<Rightarrow> Inl e | Inr a \<Rightarrow> fst (f a))"
  by (cases m) (auto simp: then_do_def split: sum.splits prod.splits)

lemma fst_try_except:
  "fst (try_except m h) = (case fst m of Inl e \<Rightarrow> fst (h e) | Inr a \<Rightarrow> Inr a)"
  by (cases m) (auto simp: try_except_def split: sum.splits prod.splits)

subsection \<open>Validation\<close>

lemma fields_present_dict2:
  "fields_present [a, b] (VDict kvs) = Inr (a \<in> fst ` set kvs \<and> b \<in> fst ` set kvs)"
  by simp

lemma fields_present2:
  "fields_present [a, b] u = Inr True \<longleftrightarrow>
     py_contains u a = Inr True \<and> py_contains u b = Inr True"
  by (auto split: sum.splits if_splits)

lemma validate_false_without_keys:
  assumes "\<not> (''guild_id'' \<in> fst ` set ev \<and> ''user'' \<in> fst ` set ev)"
  shows "validate_event_data ev = Inr False"
  using assms
  unfolding validate_event_data_def required_fields_def fields_present_dict2
  by simp

lemma has_key_lookup: "k \<in> fst ` set kvs \<Longrightarrow> \<exists>v. map_of kvs k = Some v"
  by (metis map_of_eq_None_iff not_Some_eq)

lemma validate_true_items:
  assumes "validate_event_data ev = Inr True"
  obtains g u where "map_of ev ''guild_id'' = Some g" and "map_of ev ''user'' = Some u"
proof -
  have keys: "''guild_id'' \<in> fst ` set ev \<and> ''user'' \<in> fst ` set ev"
  proof (rule ccontr)
    assume "\<not> ?thesis"
    then have "validate_event_data ev = Inr False" by (rule validate_false_without_keys)
    with assms show False by simp
  qed
  from keys have "\<exists>g. map_of ev ''guild_id'' = Some g" by (intro has_key_lookup) (rule conjunct1)
  moreover from keys have "\<exists>u. map_of ev ''user'' = Some u" by (intro has_key_lookup) (rule conjunct2)
  ultimately show ?thesis using that by blast
qed


subsection \<open>Exceptions raised before the send\<close>

lemma client_missing_unclassified:
  "unclassified (PyExn ''RuntimeError'' ''Discord client not initialized'' None)"
  by code_simp



lemma send_without_client:
  assumes "discord_client self = None"
  shows "send_welcome_message self c u =
     (Inl (PyExn ''RuntimeError'' ''Discord client not initialized'' None),
      [Log Error (FailedToSend ''Discord client not initialized'')])"
  using client_missing_unclassified assms unfolding unclassified_def
  by (simp add: send_welcome_message_def get_channel_def run_defs then_do_simps try_except_simps)

subsection \<open>Invalid events\<close>

text \<open>
  Claim C6. An event that fails validation, whether \<^verbatim>\<open>_validate_event_data\<close> returns
  \<^verbatim>\<open>False\<close> or raises, stops the handler with no further effect: it returns normally,
  the configuration is not looked up, no channel is fetched, nothing is sent, nothing
  waits and the event is not reported as a duplicate. The handler object has no field
  that could hold a dedup record, and handling does not assign to it.
\<close>

theorem invalid_event_no_effects:
  assumes "validate_event_data ev \<noteq> Inr True"
  shows "fst (handle_guild_member_add self ev) = Inr VNone \<and>
     config_lookups (snd (handle_guild_member_add self ev)) = 0 \<and>
     channel_fetches (snd (handle_guild_member_add self ev)) = 0 \<and>
     send_attempts (snd (handle_guild_member_add self ev)) = 0 \<and>
     waits (snd (handle_guild_member_add self ev)) = [] \<and>
     \<not> reported_duplicate (snd (handle_guild_member_add self ev))"
proof (cases "validate_event_data ev")
  case (Inl e)
  then show ?thesis
    by (simp add: handle_guild_member_add_def run_defs then_do_simps try_except_simps)
next
  case (Inr b)
  with assms have "validate_event_data ev = Inr False" by simp
  then show ?thesis
    by (simp add: handle_guild_member_add_def run_defs then_do_simps try_except_simps)
qed

theorem invalid_event_no_effects_witness:
  "validate_event_data malformed_event \<noteq> Inr True \<and>
   fst (handle_guild_member_add handler_ready malformed_event) = Inr VNone \<and>
   config_lookups (snd (handle_guild_member_add handler_ready malformed_event)) = 0 \<and>
   channel_fetches (snd (handle_guild_member_add handler_ready malformed_event)) = 0 \<and>
   send_attempts (snd (handle_guild_member_add handler_ready malformed_event)) = 0 \<and>
   waits (snd (handle_guild_member_add handler_ready malformed_event)) = [] \<and>
   \<not> reported_duplicate (snd (handle_guild_member_add handler_ready malformed_event))"
proof -
  have h: "validate_event_data malformed_event \<noteq> Inr True"
    by code_simp
  show ?thesis
    using h invalid_event_no_effects [OF h, of handler_ready] by simp
qed

subsection \<open>No target configured\<close>

text \<open>
  Claim C7 as stated fails: there is no outcome \<^verbatim>\<open>NoTarget\<close>. The join event delivered
  to a handler with no welcome channel configured makes the entry point return
  \<^verbatim>\<open>None\<close>, the value it also returns when the message is sent and when the event is
  rejected.
\<close>

theorem no_target_outcome_counterexample:
  "fst (handle_guild_member_add handler_unconfigured member_join_event) = Inr VNone \<and>
   fst (handle_guild_member_add handler_ready member_join_event) = Inr VNone \<and>
   fst (handle_guild_member_add handler_ready malformed_event) = Inr VNone \<and>
   send_attempts (snd (handle_guild_member_add handler_unconfigured member_join_event)) = 0 \<and>
   send_attempts (snd (handle_guild_member_add handler_ready member_join_event)) = 1"
  by code_simp

text \<open>
  Claim C7, amended. For a valid event whose guild has no welcome channel, that is
  \<^verbatim>\<open>get_welcome_channel\<close> returns \<^verbatim>\<open>None\<close>, the entry point returns \<^verbatim>\<open>None\<close> and its
  only effects are the configuration lookup and the warning that no channel is
  configured: nothing is sent and nothing is recorded. Delivering the same event again
  at once is processed as new: the configuration is looked up again, with the same two
  effects, and the event is not reported as a duplicate.
\<close>

theorem no_target_stops:
  assumes "validate_event_data ev = Inr True"
    and "map_of ev ''guild_id'' = Some g"
    and "config_service self g = Inr VNone"
  shows "handle_guild_member_add self ev =
       (Inr VNone, [GetWelcomeChannel g, Log Warning (NoWelcomeChannel g)]) \<and>
     process_events self [ev, ev] =
       [(Inr VNone, [GetWelcomeChannel g, Log Warning (NoWelcomeChannel g)]),
        (Inr VNone, [GetWelcomeChannel g, Log Warning (NoWelcomeChannel g)])] \<and>
     delivery_sends self [ev, ev] = [0, 0] \<and>
     delivery_lookups self [ev, ev] = [1, 1] \<and>
     delivery_duplicates self [ev, ev] = [False, False]"
proof -
  obtain g' u where "map_of ev ''guild_id'' = Some g'" and "map_of ev ''user'' = Some u"
    using assms(1) by (rule validate_true_items)
  with assms have run:
    "handle_guild_member_add self ev =
       (Inr VNone, [GetWelcomeChannel g, Log Warning (NoWelcomeChannel g)])"
    by (simp add: handle_guild_member_add_def run_defs then_do_simps try_except_simps
        is_duplicate_event_def)
  then show ?thesis
    by (simp add: delivery_sends_def delivery_lookups_def delivery_duplicates_def
        process_events_def)
qed

theorem no_target_stops_witness:
  "validate_event_data member_join_event = Inr True \<and>
   map_of member_join_event ''guild_id'' = Some (VStr ''123456789'') \<and>
   config_service handler_unconfigured (VStr ''123456789'') = Inr VNone \<and>
   handle_guild_member_add handler_unconfigured member_join_event =
     (Inr VNone, [GetWelcomeChannel (VStr ''123456789''),
                  Log Warning (NoWelcomeChannel (VStr ''123456789''))]) \<and>
   process_events handler_unconfigured [member_join_event, member_join_event] =
     [(Inr VNone, [GetWelcomeChannel (VStr ''123456789''),
                   Log Warning (NoWelcomeChannel (VStr ''123456789''))]),
      (Inr VNone, [GetWelcomeChannel (VStr ''123456789''),
                   Log Warning (NoWelcomeChannel (VStr ''123456789''))])] \<and>
   delivery_sends handler_unconfigured [member_join_event, member_join_event] = [0, 0] \<and>
   delivery_lookups handler_unconfigured [member_join_event, member_join_event] = [1, 1] \<and>
   delivery_duplicates handler_unconfigured [member_join_event, member_join_event] =
     [False, False]"
proof -
  have h1: "validate_event_data member_join_event = Inr True"
    by code_simp
  have h2: "map_of member_join_event ''guild_id'' = Some (VStr ''123456789'')"
    by code_simp
  have h3: "config_service handler_unconfigured (VStr ''123456789'') = Inr VNone"
    by (simp add: handler_unconfigured_def set_discord_client_def init_handler_def
        unconfigured_def)
  show ?thesis
    using h1 h2 h3 no_target_stops [OF h1 h2 h3] by simp
qed

subsection \<open>No client injected\<close>

text \<open>
  Claim C9. For a valid event with a configured welcome channel, when
  \<^verbatim>\<open>set_discord_client\<close> was never called, the \<^verbatim>\<open>RuntimeError\<close> of \<^verbatim>\<open>_get_channel\<close> is
  logged and raised again by \<^verbatim>\<open>_send_welcome_message\<close> and caught by
  \<^verbatim>\<open>handle_guild_member_add\<close>, which logs it and returns normally; no channel is fetched
  and nothing is sent.
\<close>

theorem no_client_is_caught:
  assumes "validate_event_data ev = Inr True"
    and "map_of ev ''guild_id'' = Some g"
    and "config_service self g = Inr c" and "c \<noteq> VNone"
    and "discord_client self = None"
  shows "handle_guild_member_add self ev =
       (Inr VNone,
        [GetWelcomeChannel g,
         Log Error (FailedToSend ''Discord client not initialized''),
         Log Error (FailedToProcess g ''Discord client not initialized'')]) \<and>
     channel_fetches (snd (handle_guild_member_add self ev)) = 0 \<and>
     send_attempts (snd (handle_guild_member_add self ev)) = 0"
proof -
  obtain g' u where "map_of ev ''guild_id'' = Some g'" and "map_of ev ''user'' = Some u"
    using assms(1) by (rule validate_true_items)
  with assms send_without_client [OF assms(5), of c u] have run:
    "handle_guild_member_add self ev =
       (Inr VNone,
        [GetWelcomeChannel g,
         Log Error (FailedToSend ''Discord client not initialized''),
         Log Error (FailedToProcess g ''Discord client not initialized'')])"
    by (simp add: handle_guild_member_add_def dict_get_def run_defs then_do_simps
        try_except_simps is_duplicate_event_def)
  then show ?thesis by simp
qed

theorem no_client_is_caught_witness:
  "validate_event_data member_join_event = Inr True \<and>
   map_of member_join_event ''guild_id'' = Some (VStr ''123456789'') \<and>
   config_service handler_no_client (VStr ''123456789'') = Inr (VStr ''555666777'') \<and>
   VStr ''555666777'' \<noteq> VNone \<and>
   discord_client handler_no_client = None \<and>
   handle_guild_member_add handler_no_client member_join_event =
     (Inr VNone,
      [GetWelcomeChannel (VStr ''123456789''),
       Log Error (FailedToSend ''Discord client not initialized''),
       Log Error (FailedToProcess (VStr ''123456789'') ''Discord client not initialized'')]) \<and>
   channel_fetches (snd (handle_guild_member_add handler_no_client member_join_event)) = 0 \<and>
   send_attempts (snd (handle_guild_member_add handler_no_client member_join_event)) = 0"
proof -
  have h1: "validate_event_data member_join_event = Inr True"
    by code_simp
  have h2: "map_of member_join_event ''guild_id'' = Some (VStr ''123456789'')"
    by code_simp
  have h3: "config_service handler_no_client (VStr ''123456789'') = Inr (VStr ''555666777'')"
    by (simp add: handler_no_client_def init_handler_def configured_def)
  have h4: "VStr ''555666777'' \<noteq> VNone"
    by simp
  have h5: "discord_client handler_no_client = None"
    by (simp add: handler_no_client_def init_handler_def)
  show ?thesis
    using h1 h2 h3 h4 h5 no_client_is_caught [OF h1 h2 h3 h4 h5] by simp
qed

subsection \<open>The value of the entry point\<close>

lemma send_attempts_append: "send_attempts (a @ b) = send_attempts a + send_attempts b"
  by (induction a rule: send_attempts.induct) auto




text \<open>
  Claim C2 as stated fails: the entry point does not return an outcome. The malformed
  event, which is rejected, and the join event, for which a message is sent, both make it
  return \<^verbatim>\<open>None\<close>; what happened can be read from the log only.
\<close>

theorem entry_point_outcome_counterexample:
  "fst (handle_guild_member_add handler_ready malformed_event) = Inr VNone \<and>
   fst (handle_guild_member_add handler_ready member_join_event) = Inr VNone \<and>
   send_attempts (snd (handle_guild_member_add handler_ready malformed_event)) = 0 \<and>
   send_attempts (snd (handle_guild_member_add handler_ready member_join_event)) = 1"
  by code_simp

text \<open>
  Claim C2, amended. For every event dictionary and every behaviour of the configuration
  service, the client and its channels, \<^verbatim>\<open>handle_guild_member_add\<close> returns \<^verbatim>\<open>None\<close>: no
  exception reaches its caller.
\<close>

theorem entry_point_returns_none:
  "fst (handle_guild_member_add self event_data) = Inr VNone"
  unfolding handle_guild_member_add_def
  by (simp add: fst_try_except fst_then_do run_defs split: sum.splits)

theorem entry_point_returns_none_witness:
  "fst (handle_guild_member_add handler_unavailable member_join_event) = Inr VNone"
  using entry_point_returns_none [of handler_unavailable member_join_event] by simp

subsection \<open>What validation checks\<close>

text \<open>
  Claim C5 as stated fails: an event whose subject has the empty string as identifier
  and as display name passes validation.
\<close>

theorem empty_names_validate_counterexample:
  "validate_event_data empty_names_event = Inr True \<and>
   py_getitem (dict_get empty_names_event ''user'' VNone) ''id'' = Inr (VStr []) \<and>
   py_getitem (dict_get empty_names_event ''user'' VNone) ''username'' = Inr (VStr [])"
  by code_simp

text \<open>
  Claim C5, amended. Validation succeeds exactly when the event has the keys
  \<^verbatim>\<open>guild_id\<close> and \<^verbatim>\<open>user\<close> and the tests \<^verbatim>\<open>'id' in user\<close> and \<^verbatim>\<open>'username' in user\<close>
  both hold, which for a subject that is a dictionary means that it has both keys. No
  value is looked at, so empty strings pass.
\<close>

theorem validation_checks_presence:
  "validate_event_data ev = Inr True \<longleftrightarrow>
     (''guild_id'' \<in> fst ` set ev \<and>
      (\<exists>u. map_of ev ''user'' = Some u \<and>
           py_contains u ''id'' = Inr True \<and> py_contains u ''username'' = Inr True))"
proof (cases "''guild_id'' \<in> fst ` set ev \<and> ''user'' \<in> fst ` set ev")
  case True
  then have "\<exists>u. map_of ev ''user'' = Some u"
    by (intro has_key_lookup) (rule conjunct2)
  then obtain u where u: "map_of ev ''user'' = Some u" ..
  show ?thesis
    unfolding validate_event_data_def required_fields_def user_required_fields_def
      fields_present_dict2
    using True u by (simp add: dict_get_def fields_present2 del: fields_present.simps)
next
  case False
  then have "validate_event_data ev = Inr False"
    by (rule validate_false_without_keys)
  moreover have "map_of ev ''user'' \<noteq> None \<Longrightarrow> ''user'' \<in> fst ` set ev"
    by (simp add: map_of_eq_None_iff)
  ultimately show ?thesis using False by auto
qed

theorem validation_checks_presence_witness:
  "validate_event_data member_join_event = Inr True \<and>
   ''guild_id'' \<in> fst ` set member_join_event \<and>
   (\<exists>u. map_of member_join_event ''user'' = Some u \<and>
        py_contains u ''id'' = Inr True \<and> py_contains u ''username'' = Inr True)"
proof -
  have h: "validate_event_data member_join_event = Inr True"
    by code_simp
  show ?thesis
    using h validation_checks_presence [of member_join_event] by simp
qed

subsection \<open>Fetching the channel\<close>

lemma get_channel_fails:
  assumes "discord_client self = Some fetch"
    and "case py_int channel_id of Inl e \<Rightarrow> True | Inr n \<Rightarrow> isl (fetch n)"
  shows "fst (get_channel self channel_id) = Inr None \<and>
     send_attempts (snd (get_channel self channel_id)) = 0"
  using assms
  by (cases "py_int channel_id")
     (auto simp: get_channel_def run_defs then_do_simps try_except_def isl_def
       split: prod.splits)

text \<open>
  Claim C10. With a client injected, for every channel id (a string or any other value),
  if \<^verbatim>\<open>int(channel_id)\<close> raises or \<^verbatim>\<open>fetch_channel\<close> raises, then \<^verbatim>\<open>_get_channel\<close>
  returns \<^verbatim>\<open>None\<close> and \<^verbatim>\<open>_send_welcome_message\<close> returns normally without a call of
  \<^verbatim>\<open>send\<close>.
\<close>

theorem fetch_failure_returns_none:
  assumes "discord_client self = Some fetch"
    and "case py_int channel_id of Inl e \<Rightarrow> True | Inr n \<Rightarrow> isl (fetch n)"
  shows "fst (get_channel self channel_id) = Inr None \<and>
     fst (send_welcome_message self channel_id user) = Inr () \<and>
     send_attempts (snd (send_welcome_message self channel_id user)) = 0"
proof -
  obtain t where "get_channel self channel_id = (Inr None, t)" and "send_attempts t = 0"
    using get_channel_fails [OF assms] by (cases "get_channel self channel_id") auto
  then show ?thesis
    by (simp add: send_welcome_message_def run_defs then_do_simps try_except_simps
        send_attempts_append)
qed

theorem fetch_failure_returns_none_witness:
  "discord_client handler_not_found = Some client_not_found \<and>
   (case py_int (VStr ''general'') of Inl e \<Rightarrow> True | Inr n \<Rightarrow> isl (client_not_found n)) \<and>
   isl (py_int (VStr ''general'')) \<and>
   fst (get_channel handler_not_found (VStr ''general'')) = Inr None \<and>
   fst (send_welcome_message handler_not_found (VStr ''general'') member_join_user) = Inr () \<and>
   send_attempts
     (snd (send_welcome_message handler_not_found (VStr ''general'') member_join_user)) = 0"
proof -
  have h1: "discord_client handler_not_found = Some client_not_found"
    by (simp add: handler_not_found_def set_discord_client_def init_handler_def)
  have h2: "isl (py_int (VStr ''general''))"
    by code_simp
  then have h3:
    "case py_int (VStr ''general'') of Inl e \<Rightarrow> True | Inr n \<Rightarrow> isl (client_not_found n)"
    by (cases "py_int (VStr ''general'')") simp_all
  show ?thesis
    using h1 h2 h3 fetch_failure_returns_none [OF h1 h3, of member_join_user] by simp
qed

subsection \<open>A send that fails\<close>

text \<open>
  Claim C3 as stated fails: when every send is answered with HTTP 429 and a retry-after
  of 2 seconds, the handler sends once, waits the 2 seconds and returns; the send is not
  tried again.
\<close>

theorem rate_limit_no_retry_counterexample:
  "snd (handle_guild_member_add handler_rate_limited member_join_event) =
     [GetWelcomeChannel (VStr ''123456789''), FetchChannel 555666777,
      Send 555666777 (WelcomeMessage (VStr ''987654321'')),
      Log Warning (RateLimited 2), Sleep 2,
      Log Info (WelcomeSentFor (VStr ''987654321'') (VStr ''123456789''))] \<and>
   send_attempts (snd (handle_guild_member_add handler_rate_limited member_join_event)) = 1"
  by code_simp

text \<open>
  Claim C3, amended. When the send fails with an exception whose text contains
  \<^verbatim>\<open>rate limit\<close> (in any case) or \<^verbatim>\<open>429\<close>, the dispatcher logs a warning, waits the
  \<^verbatim>\<open>retry_after\<close> of the exception, or 5 seconds when it has none, and returns normally
  without a retry: the send was attempted once.
\<close>

theorem rate_limit_waits_then_returns:
  assumes "discord_client self = Some fetch" and "py_int channel_id = Inr n"
    and "fetch n = Inr (Some ch)"
    and "py_getitem user ''id'' = Inr user_id"
    and "py_getitem user ''username'' = Inr username"
    and "send ch (WelcomeMessage user_id) = Inl e" and "is_rate_limit e"
  shows "send_welcome_message self channel_id user =
       (Inr (), [FetchChannel n, Send (chan_id ch) (WelcomeMessage user_id),
                 Log Warning (RateLimited (retry_after_of e)), Sleep (retry_after_of e)]) \<and>
     send_attempts (snd (send_welcome_message self channel_id user)) = 1 \<and>
     waits (snd (send_welcome_message self channel_id user)) =
       [case exn_retry_after e of None \<Rightarrow> 5 | Some d \<Rightarrow> d]"
  using assms
  by (simp add: send_welcome_message_def get_channel_def run_defs then_do_simps
      try_except_simps retry_after_of_def)

theorem rate_limit_waits_then_returns_witness:
  "discord_client handler_rate_limited = Some client_rate_limited \<and>
   py_int (VStr ''555666777'') = Inr 555666777 \<and>
   client_rate_limited 555666777 = Inr (Some (Channel 555666777 (\<lambda>m. Inl too_many_requests))) \<and>
   py_getitem member_join_user ''id'' = Inr (VStr ''987654321'') \<and>
   py_getitem member_join_user ''username'' = Inr (VStr ''new_user'') \<and>
   is_rate_limit too_many_requests \<and>
   send_welcome_message handler_rate_limited (VStr ''555666777'') member_join_user =
     (Inr (), [FetchChannel 555666777, Send 555666777 (WelcomeMessage (VStr ''987654321'')),
               Log Warning (RateLimited 2), Sleep 2]) \<and>
   send_attempts
     (snd (send_welcome_message handler_rate_limited (VStr ''555666777'') member_join_user)) = 1 \<and>
   waits
     (snd (send_welcome_message handler_rate_limited (VStr ''555666777'') member_join_user)) = [2]"
proof -
  have h1: "discord_client handler_rate_limited = Some client_rate_limited"
    by (simp add: handler_rate_limited_def set_discord_client_def init_handler_def)
  have h2: "py_int (VStr ''555666777'') = Inr 555666777"
    by code_simp
  have h3: "client_rate_limited 555666777 =
      Inr (Some (Channel 555666777 (\<lambda>m. Inl too_many_requests)))"
    by (simp add: client_rate_limited_def)
  have h4: "py_getitem member_join_user ''id'' = Inr (VStr ''987654321'')"
    by code_simp
  have h5: "py_getitem member_join_user ''username'' = Inr (VStr ''new_user'')"
    by code_simp
  have h6: "send (Channel 555666777 (\<lambda>m. Inl too_many_requests))
      (WelcomeMessage (VStr ''987654321'')) = Inl too_many_requests"
    by simp
  have h7: "is_rate_limit too_many_requests"
    by code_simp
  have r: "retry_after_of too_many_requests = 2"
    by (simp add: retry_after_of_def too_many_requests_def)
  show ?thesis
    using h1 h2 h3 h4 h5 h7 r
      rate_limit_waits_then_returns [OF h1 h2 h3 h4 h5 h6 h7]
    by (simp add: too_many_requests_def)
qed

text \<open>
  Claim C4 as stated fails: when every send is answered with HTTP 503, the handler sends
  once and does not wait; the failure it logs is the 503 itself, not an exhaustion of
  retries.
\<close>

theorem transient_no_backoff_counterexample:
  "snd (handle_guild_member_add handler_unavailable member_join_event) =
     [GetWelcomeChannel (VStr ''123456789''), FetchChannel 555666777,
      Send 555666777 (WelcomeMessage (VStr ''987654321'')),
      Log Error (FailedToSend ''503 Service Unavailable''),
      Log Error (FailedToProcess (VStr ''123456789'') ''503 Service Unavailable'')] \<and>
   send_attempts (snd (handle_guild_member_add handler_unavailable member_join_event)) = 1 \<and>
   waits (snd (handle_guild_member_add handler_unavailable member_join_event)) = []"
  by code_simp

text \<open>
  Claim C4, amended. The dispatcher has no class of transient failures: it looks only
  for \<^verbatim>\<open>rate limit\<close> and \<^verbatim>\<open>permission\<close> (in any letter case) and for \<^verbatim>\<open>429\<close> and \<^verbatim>\<open>403\<close>
  in the text of the error. When the send of a valid event fails with an error whose
  text contains none of the four, there is no retry and no wait: after the one attempt
  the dispatcher logs the failure and raises the same error again, and the entry point
  catches it, logs it with the guild id and returns \<^verbatim>\<open>None\<close>. The error reported is the
  one the send raised.
\<close>

theorem unclassified_failure_is_reraised:
  assumes "validate_event_data ev = Inr True"
    and "map_of ev ''guild_id'' = Some g" and "map_of ev ''user'' = Some user"
    and "config_service self g = Inr channel_id" and "channel_id \<noteq> VNone"
    and "discord_client self = Some fetch" and "py_int channel_id = Inr n"
    and "fetch n = Inr (Some ch)"
    and "py_getitem user ''id'' = Inr user_id"
    and "py_getitem user ''username'' = Inr username"
    and "send ch (WelcomeMessage user_id) = Inl e" and "unclassified e"
  shows "send_welcome_message self channel_id user =
       (Inl e, [FetchChannel n, Send (chan_id ch) (WelcomeMessage user_id),
                Log Error (FailedToSend (exn_str e))]) \<and>
     handle_guild_member_add self ev =
       (Inr VNone,
        [GetWelcomeChannel g, FetchChannel n, Send (chan_id ch) (WelcomeMessage user_id),
         Log Error (FailedToSend (exn_str e)),
         Log Error (FailedToProcess g (exn_str e))]) \<and>
     send_attempts (snd (handle_guild_member_add self ev)) = 1 \<and>
     waits (snd (handle_guild_member_add self ev)) = []"
proof -
  have d: "send_welcome_message self channel_id user =
       (Inl e, [FetchChannel n, Send (chan_id ch) (WelcomeMessage user_id),
                Log Error (FailedToSend (exn_str e))])"
    using assms(6-12)
    by (simp add: send_welcome_message_def get_channel_def run_defs then_do_simps
        try_except_simps unclassified_def)
  have h: "handle_guild_member_add self ev =
       (Inr VNone,
        [GetWelcomeChannel g, FetchChannel n, Send (chan_id ch) (WelcomeMessage user_id),
         Log Error (FailedToSend (exn_str e)),
         Log Error (FailedToProcess g (exn_str e))])"
    using assms(1-5) d
    by (simp add: handle_guild_member_add_def dict_get_def run_defs then_do_simps
        try_except_simps is_duplicate_event_def)
  show ?thesis using d h by simp
qed

theorem unclassified_failure_is_reraised_witness:
  "validate_event_data member_join_event = Inr True \<and>
   map_of member_join_event ''guild_id'' = Some (VStr ''123456789'') \<and>
   map_of member_join_event ''user'' = Some member_join_user \<and>
   config_service handler_unavailable (VStr ''123456789'') = Inr (VStr ''555666777'') \<and>
   VStr ''555666777'' \<noteq> VNone \<and>
   discord_client handler_unavailable = Some client_unavailable \<and>
   py_int (VStr ''555666777'') = Inr 555666777 \<and>
   client_unavailable 555666777 = Inr (Some (Channel 555666777 (\<lambda>m. Inl service_unavailable))) \<and>
   py_getitem member_join_user ''id'' = Inr (VStr ''987654321'') \<and>
   py_getitem member_join_user ''username'' = Inr (VStr ''new_user'') \<and>
   unclassified service_unavailable \<and>
   send_welcome_message handler_unavailable (VStr ''555666777'') member_join_user =
     (Inl service_unavailable,
      [FetchChannel 555666777, Send 555666777 (WelcomeMessage (VStr ''987654321'')),
       Log Error (FailedToSend ''503 Service Unavailable'')]) \<and>
   handle_guild_member_add handler_unavailable member_join_event =
     (Inr VNone,
      [GetWelcomeChannel (VStr ''123456789''), FetchChannel 555666777,
       Send 555666777 (WelcomeMessage (VStr ''987654321'')),
       Log Error (FailedToSend ''503 Service Unavailable''),
       Log Error (FailedToProcess (VStr ''123456789'') ''503 Service Unavailable'')]) \<and>
   send_attempts (snd (handle_guild_member_add handler_unavailable member_join_event)) = 1 \<and>
   waits (snd (handle_guild_member_add handler_unavailable member_join_event)) = []"
proof -
  have v1: "validate_event_data member_join_event = Inr True"
    by code_simp
  have v2: "map_of member_join_event ''guild_id'' = Some (VStr ''123456789'')"
    by code_simp
  have v3: "map_of member_join_event ''user'' = Some member_join_user"
    by code_simp
  have v4: "config_service handler_unavailable (VStr ''123456789'') = Inr (VStr ''555666777'')"
    by (simp add: handler_unavailable_def set_discord_client_def init_handler_def
        configured_def)
  have v5: "VStr ''555666777'' \<noteq> VNone"
    by simp
  have h1: "discord_client handler_unavailable = Some client_unavailable"
    by (simp add: handler_unavailable_def set_discord_client_def init_handler_def)
  have h2: "py_int (VStr ''555666777'') = Inr 555666777"
    by code_simp
  have h3: "client_unavailable 555666777 =
      Inr (Some (Channel 555666777 (\<lambda>m. Inl service_unavailable)))"
    by (simp add: client_unavailable_def)
  have h4: "py_getitem member_join_user ''id'' = Inr (VStr ''987654321'')"
    by code_simp
  have h5: "py_getitem member_join_user ''username'' = Inr (VStr ''new_user'')"
    by code_simp
  have h6: "send (Channel 555666777 (\<lambda>m. Inl service_unavailable))
      (WelcomeMessage (VStr ''987654321'')) = Inl service_unavailable"
    by simp
  have h7: "unclassified service_unavailable"
    by code_simp
  have s: "exn_str service_unavailable = ''503 Service Unavailable''"
    by (simp add: service_unavailable_def)
  show ?thesis
    using v1 v2 v3 v4 v5 h1 h2 h3 h4 h5 h7 s
      unclassified_failure_is_reraised [OF v1 v2 v3 v4 v5 h1 h2 h3 h4 h5 h6 h7]
    by simp
qed

subsection \<open>Waiting before a send\<close>












subsection \<open>Redelivered events\<close>

text \<open>
  Claim C1, on the code: \<^verbatim>\<open>_is_duplicate_event\<close> answers \<^verbatim>\<open>False\<close> for every event, so
  two deliveries of the same join event within any window both send the welcome message
  and neither is reported as a duplicate.
\<close>

theorem redelivery_dispatches_again:
  "is_duplicate_event member_join_event = False \<and>
   delivery_sends handler_ready [member_join_event, member_join_event] = [1, 1] \<and>
   delivery_duplicates handler_ready [member_join_event, member_join_event] = [False, False]"
  by code_simp

end
